theory Spec2Isabelle
  imports Complex_Main "HOL-Library.Code_Target_Nat"
begin

section \<open>Python values and built-in operations used by the converter\<close>

text \<open>
  The repository is Python. Exceptions are values of \<open>error\<close>; a computation that can
  raise returns \<open>error + 'a\<close> with \<open>Inl\<close> for the exception. Python integers are
  \<open>int\<close>. Python floats are modelled by exact rationals (\<open>rat\<close>): binary
  representation error of IEEE doubles is outside the model, so every numeric statement
  below is a statement of exact arithmetic. Strings are byte strings (\<open>string\<close>).
\<close>

datatype error =
    ValueError | KeyError | IndexError | TypeError | AttributeError | ZeroDivisionError
  | FileNotFoundError | FileExistsError | NotADirectoryError | IsADirectoryError
  | SameFileError | PathIsNotADirectory | ExternalError

text \<open>Values produced by \<open>json.load\<close>. A JSON object is an association list; the
  first binding of a key is the one a lookup sees.\<close>

datatype json =
    JNull | JBool bool | JInt int | JNum rat | JStr string
  | JArr "json list" | JObj "(string \<times> json) list"

definition bind :: "error + 'a \<Rightarrow> ('a \<Rightarrow> error + 'b) \<Rightarrow> error + 'b" where
  "bind m f = (case m of Inl e \<Rightarrow> Inl e | Inr a \<Rightarrow> f a)"

text \<open>\<open>d[k]\<close> on a dictionary (\<open>KeyError\<close> when absent) and \<open>k in d\<close>.\<close>

definition dict_get :: "(string \<times> json) list \<Rightarrow> string \<Rightarrow> error + json" where
  "dict_get d k = (case map_of d k of None \<Rightarrow> Inl KeyError | Some v \<Rightarrow> Inr v)"


text \<open>\<open>xs[i]\<close> on a Python list with a non-negative literal index.\<close>

definition list_index :: "'a list \<Rightarrow> nat \<Rightarrow> error + 'a" where
  "list_index xs i = (if i < length xs then Inr (xs ! i) else Inl IndexError)"

text \<open>\<open>v[i]\<close> on a JSON value: lists are indexed, strings give a one-character string,
  a dictionary raises \<open>KeyError\<close> on an integer key, anything else is not subscriptable.\<close>

definition json_index :: "json \<Rightarrow> nat \<Rightarrow> error + json" where
  "json_index v i = (case v of
       JArr xs \<Rightarrow> list_index xs i
     | JStr s \<Rightarrow> (if i < length s then Inr (JStr [s ! i]) else Inl IndexError)
     | JObj d \<Rightarrow> Inl KeyError
     | _ \<Rightarrow> Inl TypeError)"

text \<open>The numeric value of a JSON value used as an operand of arithmetic; booleans are
  the integers 0 and 1 in Python.\<close>

definition as_num :: "json \<Rightarrow> error + rat" where
  "as_num v = (case v of
       JInt i \<Rightarrow> Inr (of_int i)
     | JNum r \<Rightarrow> Inr r
     | JBool b \<Rightarrow> Inr (if b then 1 else 0)
     | _ \<Rightarrow> Inl TypeError)"

text \<open>True division \<open>x / y\<close> of a number by a JSON value.\<close>

definition truediv :: "rat \<Rightarrow> json \<Rightarrow> error + rat" where
  "truediv x y = bind (as_num y) (\<lambda>d. if d = 0 then Inl ZeroDivisionError else Inr (x / d))"

subsection \<open>\<open>round(x, ndigits)\<close>\<close>

text \<open>Python rounds to the nearest multiple of \<open>10 ^ (- ndigits)\<close>, ties going to the
  even multiple.\<close>

definition round_half_even :: "rat \<Rightarrow> int" where
  "round_half_even q = (let f = \<lfloor>q\<rfloor>; d = q - of_int f in
     if d < 1 / 2 then f else if 1 / 2 < d then f + 1 else if even f then f else f + 1)"

definition pow10 :: "int \<Rightarrow> rat" where
  "pow10 n = (if 0 \<le> n then 10 ^ nat n else 1 / 10 ^ nat (- n))"

definition py_round :: "rat \<Rightarrow> int \<Rightarrow> rat" where
  "py_round x ndigits = of_int (round_half_even (x * pow10 ndigits)) / pow10 ndigits"

subsection \<open>\<open>str(n)\<close> and \<open>int(s)\<close> on integers\<close>

definition digit_char :: "nat \<Rightarrow> char" where
  "digit_char d = ''0123456789'' ! d"

fun str_nat :: "nat \<Rightarrow> string" where
  "str_nat n = (if n < 10 then [digit_char n] else str_nat (n div 10) @ [digit_char (n mod 10)])"

declare str_nat.simps [simp del]

definition str_int :: "int \<Rightarrow> string" where
  "str_int i = (if i < 0 then CHR ''-'' # str_nat (nat (- i)) else str_nat (nat i))"

definition is_digit :: "char \<Rightarrow> bool" where
  "is_digit c = (c \<in> set ''0123456789'')"

definition digit_val :: "char \<Rightarrow> nat" where
  "digit_val c = of_char c - 48"

text \<open>The ASCII characters \<open>int\<close> and \<open>str.strip\<close> treat as white space: codes 9 to 13,
  28 to 31 and the blank.\<close>

definition is_space :: "char \<Rightarrow> bool" where
  "is_space c = (let n = (of_char c :: nat) in (9 \<le> n \<and> n \<le> 13) \<or> (28 \<le> n \<and> n \<le> 32))"

definition strip :: "string \<Rightarrow> string" where
  "strip s = rev (dropWhile is_space (rev (dropWhile is_space s)))"

text \<open>The digits of a decimal literal after its first digit: single underscores may
  separate digits. The accumulator is the value read so far.\<close>

fun parse_digits :: "nat \<Rightarrow> string \<Rightarrow> nat option" where
  "parse_digits acc [] = Some acc"
| "parse_digits acc [c] = (if is_digit c then Some (10 * acc + digit_val c) else None)"
| "parse_digits acc (c # d # cs) =
     (if is_digit c then parse_digits (10 * acc + digit_val c) (d # cs)
      else if c = CHR ''_'' \<and> is_digit d then parse_digits (10 * acc + digit_val d) cs
      else None)"

definition parse_nat :: "string \<Rightarrow> nat option" where
  "parse_nat s = (case s of [] \<Rightarrow> None
     | c # cs \<Rightarrow> if is_digit c then parse_digits (digit_val c) cs else None)"

text \<open>\<open>int(s)\<close> for a string, base ten: surrounding white space is dropped, one sign is
  allowed, and anything else raises \<open>ValueError\<close>. Strings are bytes here, so digits and
  blanks outside ASCII are not recognised, and the interpreter's optional cap on the number
  of digits (several thousand by default) is left out.\<close>

definition py_int :: "string \<Rightarrow> error + int" where
  "py_int s = (case strip s of
       [] \<Rightarrow> Inl ValueError
     | c # cs \<Rightarrow>
         if c = CHR ''-'' then
           (case parse_nat cs of None \<Rightarrow> Inl ValueError | Some n \<Rightarrow> Inr (- int n))
         else if c = CHR ''+'' then
           (case parse_nat cs of None \<Rightarrow> Inl ValueError | Some n \<Rightarrow> Inr (int n))
         else
           (case parse_nat (c # cs) of None \<Rightarrow> Inl ValueError | Some n \<Rightarrow> Inr (int n)))"

subsection \<open>String splitting and joining\<close>

text \<open>\<open>s.split(c)\<close> for a one-character separator: never empty.\<close>

fun py_split :: "char \<Rightarrow> string \<Rightarrow> string list" where
  "py_split c [] = [[]]"
| "py_split c (x # xs) =
     (if x = c then [] # py_split c xs
      else (case py_split c xs of [] \<Rightarrow> [[x]] | y # ys \<Rightarrow> (x # y) # ys))"

text \<open>\<open>sep.join(xs)\<close>.\<close>

fun py_join :: "string \<Rightarrow> string list \<Rightarrow> string" where
  "py_join sep [] = []"
| "py_join sep [x] = x"
| "py_join sep (x # y # ys) = x @ sep @ py_join sep (y # ys)"

section \<open>Paths and the file system\<close>

text \<open>
  \<open>os.path\<close> with POSIX conventions. \<open>normpath\<close> and \<open>abspath\<close> are taken from the
  environment (see \<open>py_env\<close> below); the functions the converter's results depend on are
  written out.
\<close>

text \<open>The part of a string after the last occurrence of a character (all of it when
  the character does not occur), and the part before that occurrence.\<close>

definition after_last :: "char \<Rightarrow> string \<Rightarrow> string" where
  "after_last c s = rev (takeWhile (\<lambda>x. x \<noteq> c) (rev s))"

definition before_last :: "char \<Rightarrow> string \<Rightarrow> string" where
  "before_last c s = rev (tl (dropWhile (\<lambda>x. x \<noteq> c) (rev s)))"

definition basename :: "string \<Rightarrow> string" where
  "basename p = after_last CHR ''/'' p"

text \<open>\<open>os.path.dirname\<close>: everything up to the last slash, with trailing slashes
  removed unless nothing else is left.\<close>

definition dirname :: "string \<Rightarrow> string" where
  "dirname p = (let head = take (length p - length (basename p)) p in
     if head \<noteq> [] \<and> \<not> list_all (\<lambda>c. c = CHR ''/'') head
     then rev (dropWhile (\<lambda>c. c = CHR ''/'') (rev head)) else head)"

text \<open>\<open>os.path.join(a, b)\<close> and its three-argument form.\<close>

definition path_join :: "string \<Rightarrow> string \<Rightarrow> string" where
  "path_join a b =
     (if b \<noteq> [] \<and> hd b = CHR ''/'' then b
      else if a = [] \<or> last a = CHR ''/'' then a @ b
      else a @ ''/'' @ b)"

definition path_join3 :: "string \<Rightarrow> string \<Rightarrow> string \<Rightarrow> string" where
  "path_join3 a b c = path_join (path_join a b) c"

text \<open>\<open>os.path.splitext\<close>: the extension starts at the last dot of the last path
  component and includes that dot; a component whose dots are all leading has no
  extension.\<close>

definition splitext :: "string \<Rightarrow> string \<times> string" where
  "splitext p = (let base = basename p in
     if CHR ''.'' \<in> set base \<and> \<not> list_all (\<lambda>c. c = CHR ''.'') (before_last CHR ''.'' base)
     then (before_last CHR ''.'' p, CHR ''.'' # after_last CHR ''.'' p)
     else (p, []))"

text \<open>
  The file system maps a path, compared as a string, to a directory or to a file with
  its contents. It is a finite association list whose first binding of a path is the
  current one. The root and the working directory (the directory name \<open>.\<close> or the empty
  one) always exist; other relative or symbolic names are not resolved.
\<close>

datatype node = Dir | File string

type_synonym fs = "(string \<times> node) list"

definition path_exists :: "fs \<Rightarrow> string \<Rightarrow> bool" where
  "path_exists fs p = (map_of fs p \<noteq> None)"

definition isdir :: "fs \<Rightarrow> string \<Rightarrow> bool" where
  "isdir fs p = (map_of fs p = Some Dir)"

definition parent_is_dir :: "fs \<Rightarrow> string \<Rightarrow> bool" where
  "parent_is_dir fs p = (let d = dirname p in d = [] \<or> d = ''.'' \<or> d = ''/'' \<or> isdir fs d)"

text \<open>An action on the file system returns its result, or the exception it raised,
  together with the file system it leaves behind.\<close>

type_synonym 'a io = "fs \<Rightarrow> (error + 'a) \<times> fs"

definition bind_io :: "'a io \<Rightarrow> ('a \<Rightarrow> 'b io) \<Rightarrow> 'b io" where
  "bind_io m f = (\<lambda>fs. case m fs of (Inl e, fs') \<Rightarrow> (Inl e, fs') | (Inr a, fs') \<Rightarrow> f a fs')"

definition return_io :: "'a \<Rightarrow> 'a io" where
  "return_io a = (\<lambda>fs. (Inr a, fs))"

definition raise_io :: "error \<Rightarrow> 'a io" where
  "raise_io e = (\<lambda>fs. (Inl e, fs))"

definition lift_io :: "error + 'a \<Rightarrow> 'a io" where
  "lift_io m = (\<lambda>fs. (m, fs))"

text \<open>\<open>with open(p, "w") as f: f.write(...)\<close>: the file is created or replaced.\<close>

definition write_file :: "string \<Rightarrow> string \<Rightarrow> unit io" where
  "write_file p content = (\<lambda>fs.
     if isdir fs p then (Inl IsADirectoryError, fs)
     else if \<not> parent_is_dir fs p then (Inl FileNotFoundError, fs)
     else (Inr (), (p, File content) # fs))"

text \<open>\<open>shutil.copyfile(src, dst)\<close>.\<close>

definition copyfile :: "string \<Rightarrow> string \<Rightarrow> unit io" where
  "copyfile src dst = (\<lambda>fs.
     if path_exists fs src \<and> src = dst then (Inl SameFileError, fs)
     else (case map_of fs src of
         None \<Rightarrow> (Inl FileNotFoundError, fs)
       | Some Dir \<Rightarrow> (Inl IsADirectoryError, fs)
       | Some (File content) \<Rightarrow> write_file dst content fs))"

text \<open>\<open>os.mkdir(p)\<close>.\<close>

definition os_mkdir :: "string \<Rightarrow> unit io" where
  "os_mkdir p = (\<lambda>fs.
     if path_exists fs p then (Inl FileExistsError, fs)
     else if \<not> parent_is_dir fs p then (Inl FileNotFoundError, fs)
     else (Inr (), (p, Dir) # fs))"

text \<open>The proper ancestors of a path, outermost first: the prefixes that end just
  before a slash and are neither empty nor the root.\<close>

definition ancestors :: "string \<Rightarrow> string list" where
  "ancestors p = filter (\<lambda>a. a \<noteq> [] \<and> a \<noteq> ''/'')
     (map (\<lambda>n. take n p) (filter (\<lambda>n. p ! n = CHR ''/'') [0..<length p]))"

text \<open>\<open>Path(p).mkdir(parents=True)\<close>: missing ancestors are created, an ancestor that
  is a file is an error, and the directory itself must not exist yet.\<close>

fun make_ancestors :: "string list \<Rightarrow> unit io" where
  "make_ancestors [] fs = (Inr (), fs)"
| "make_ancestors (a # as) fs =
     (case map_of fs a of
        None \<Rightarrow> make_ancestors as ((a, Dir) # fs)
      | Some Dir \<Rightarrow> make_ancestors as fs
      | Some (File content) \<Rightarrow> (Inl NotADirectoryError, fs))"

definition mkdir_parents :: "string \<Rightarrow> unit io" where
  "mkdir_parents p = bind_io (make_ancestors (ancestors p)) (\<lambda>_. os_mkdir p)"

text \<open>
  What the converter takes from outside the sources, as parameters: the rendering of
  floats and of JSON containers by \<open>str\<close>, \<open>os.path.normpath\<close> and \<open>os.path.abspath\<close>,
  and the two helpers of the repository's \<open>util\<close> module, the split generator (its result
  for a count, a validation fraction and a test fraction) and the polygon detector
  applied to the image read from a mask file (the boundary points it returns, already
  normalised).
\<close>

record py_env =
  float_str :: "rat \<Rightarrow> string"
  container_str :: "json \<Rightarrow> string"
  normpath :: "string \<Rightarrow> string"
  abspath :: "string \<Rightarrow> string"
  generate_random_split :: "nat \<Rightarrow> rat \<Rightarrow> rat \<Rightarrow> string list"
  detect_colored_polygons :: "string \<Rightarrow> json \<Rightarrow> int \<Rightarrow> error + (rat \<times> rat) list list"

text \<open>\<open>str(v)\<close>, as an f-string applies it to a value.\<close>

definition py_str :: "py_env \<Rightarrow> json \<Rightarrow> string" where
  "py_str env v = (case v of
       JNull \<Rightarrow> ''None''
     | JBool b \<Rightarrow> (if b then ''True'' else ''False'')
     | JInt i \<Rightarrow> str_int i
     | JNum r \<Rightarrow> float_str env r
     | JStr s \<Rightarrow> s
     | _ \<Rightarrow> container_str env v)"

section \<open>The data model\<close>

text \<open>
  Modelled from the spec: the class \<open>Label\<close> and the annotation classes (2D and 3D
  bounding boxes, keypoints, instance and semantic segmentation, depth, transform) are
  declared in modules of the repository that are not among the sources. Their records
  follow the data model of the specification (section 3) and the attributes the
  converter reads. Field names carry a suffix naming the class. The parsers of these
  classes are parameters of \<open>Capture.from_dict\<close> below.
\<close>

record label =
  id_label :: int
  label_id_label :: json
  name_label :: string

record bounding_box_2d =
  instance_id_bb :: int
  label_bb :: label
  origin_bb :: "rat list"
  dimension_bb :: "rat list"

record bounding_box_2d_annotation =
  values_bb :: "bounding_box_2d list"

record keypoint =
  location_kp :: "rat list"
  state_kp :: int

record keypoint_entry =
  instance_id_ke :: int
  keypoints_ke :: "keypoint list"

record keypoint_annotation =
  values_ka :: "keypoint_entry list"

record segmentation_instance =
  instance_id_in :: int
  label_in :: label
  color_in :: json

record instance_segmentation_annotation =
  file_path_isa :: string
  instances_isa :: "segmentation_instance list"

record semantic_segmentation_annotation =
  file_path_ssa :: string

text \<open>The three annotation kinds the converter never reads keep their raw block.\<close>

datatype bounding_box_3d_annotation = BoundingBox3DAnnotation json
datatype depth_annotation = DepthAnnotation json
datatype transform_annotation = TransformAnnotation json

text \<open>\<open>Capture\<close> (\<open>capture.py\<close>). Fields copied from the raw dictionary keep the JSON
  value they had.\<close>

record capture =
  id_c :: json
  sequence_c :: int
  description_c :: json
  position_c :: json
  rotation_c :: json
  velocity_c :: json
  acceleration_c :: json
  file_path_c :: string
  image_format_c :: json
  dimension_c :: json
  projection_c :: json
  matrix_c :: json
  instance_segmentation_c :: "instance_segmentation_annotation option"
  semantic_segmentation_c :: "semantic_segmentation_annotation option"
  bounding_boxes_2d_c :: "bounding_box_2d_annotation option"
  bounding_boxes_3d_c :: "bounding_box_3d_annotation option"
  depth_c :: "depth_annotation option"
  keypoints_c :: "keypoint_annotation option"
  transforms_c :: "transform_annotation option"

text \<open>The metric classes of \<open>metric.py\<close>.\<close>

record object_count_value =
  label_id_ocv :: json
  label_name_ocv :: json
  count_ocv :: json

record occlusion_value =
  instance_id_ov :: json
  percent_visible_ov :: json
  percent_in_frame_ov :: json
  visibility_in_frame_ov :: json

record generic_metric =
  id_gm :: json
  sensor_id_gm :: json
  sequence_gm :: int
  annotation_id_gm :: json
  description_gm :: json
  value_gm :: "json option"

record object_count_metric =
  id_ocm :: json
  sensor_id_ocm :: json
  sequence_ocm :: int
  annotation_id_ocm :: json
  description_ocm :: json
  values_ocm :: "object_count_value list option"

record occlusion_metric =
  id_om :: json
  sensor_id_om :: json
  sequence_om :: int
  annotation_id_om :: json
  description_om :: json
  values_om :: "occlusion_value list option"

record metric =
  id_m :: json
  sequence_m :: int
  sensor_id_m :: json
  description_m :: json
  generic_metrics_m :: "generic_metric list option"
  object_count_metric_m :: "object_count_metric option"
  occlusion_metric_m :: "occlusion_metric option"

text \<open>\<open>UnityData\<close> (\<open>data.py\<close>). The two dictionaries keep insertion order, which the
  flattening properties iterate in; their keys are distinct.\<close>

record unity_data =
  labels_ud :: "label list"
  captures_by_sequence_ud :: "(int \<times> capture list) list"
  metrics_by_sequence_ud :: "(int \<times> metric list) list"

definition captures :: "unity_data \<Rightarrow> capture list" where
  "captures ud = concat (map snd (captures_by_sequence_ud ud))"

definition metrics :: "unity_data \<Rightarrow> metric list" where
  "metrics ud = concat (map snd (metrics_by_sequence_ud ud))"

section \<open>Ingestion\<close>

subsection \<open>\<open>UnityData.read_labels\<close>\<close>

text \<open>
  The definitions file holds a list of blocks. A block has no \<open>spec\<close> key, or a \<open>spec\<close>
  that is not a list, or a list of entries; an entry may lack \<open>label_id\<close> or
  \<open>label_name\<close>. Label names are strings, compared with \<open>==\<close>.
\<close>

record spec_entry =
  label_id_se :: "json option"
  label_name_se :: "string option"

datatype annotation_definition = NoSpec | SpecNotAList | Spec "spec_entry list"

text \<open>The inner loop over one block's entries; the state is \<open>labels\<close> and \<open>counter\<close>.\<close>

fun read_spec_entries :: "spec_entry list \<Rightarrow> label list \<times> int \<Rightarrow> label list \<times> int" where
  "read_spec_entries [] st = st"
| "read_spec_entries (e # es) (labels, counter) =
     (case (label_id_se e, label_name_se e) of
        (Some lid, Some nm) \<Rightarrow>
          if \<not> list_ex (\<lambda>l. name_label l = nm) labels
          then read_spec_entries es
                 (labels @ [\<lparr>id_label = counter, label_id_label = lid, name_label = nm\<rparr>],
                  counter + 1)
          else read_spec_entries es (labels, counter)
      | _ \<Rightarrow> read_spec_entries es (labels, counter))"

fun read_definitions ::
  "annotation_definition list \<Rightarrow> label list \<times> int \<Rightarrow> label list \<times> int" where
  "read_definitions [] st = st"
| "read_definitions (d # ds) st =
     (case d of
        Spec es \<Rightarrow>
          if length es = 0 then read_definitions ds st
          else read_definitions ds (read_spec_entries es st)
      | _ \<Rightarrow> read_definitions ds st)"

definition read_labels :: "annotation_definition list \<Rightarrow> label list" where
  "read_labels annotation_definitions = fst (read_definitions annotation_definitions ([], 0))"

subsection \<open>Sequence numbers and \<open>Metric.from_dict\<close>\<close>


fun map_err :: "('a \<Rightarrow> error + 'b) \<Rightarrow> 'a list \<Rightarrow> error + 'b list" where
  "map_err f [] = Inr []"
| "map_err f (x # xs) = bind (f x) (\<lambda>y. bind (map_err f xs) (\<lambda>ys. Inr (y # ys)))"


text \<open>\<open>int(path.split('.')[-1])\<close> for the value stored under \<open>path\<close>.\<close>

definition sequence_of_path :: "json \<Rightarrow> error + int" where
  "sequence_of_path path = (case path of
       JStr s \<Rightarrow> py_int (last (py_split CHR ''.'' s))
     | _ \<Rightarrow> Inl AttributeError)"

definition TYPE_GENERIC :: string where
  "TYPE_GENERIC = ''type.unity.com/unity.solo.GenericMetric''"






definition GenericMetric_from_dict :: "(string \<times> json) list \<Rightarrow> error + generic_metric" where
  "GenericMetric_from_dict d =
     bind (dict_get d ''id'') (\<lambda>i.
     bind (bind (dict_get d ''path'') sequence_of_path) (\<lambda>sq.
     bind (dict_get d ''sensorId'') (\<lambda>sn.
     bind (dict_get d ''annotationId'') (\<lambda>an.
     bind (dict_get d ''description'') (\<lambda>ds.
     Inr \<lparr>id_gm = i, sensor_id_gm = sn, sequence_gm = sq, annotation_id_gm = an,
          description_gm = ds, value_gm = map_of d ''value''\<rparr>)))))"




subsection \<open>\<open>Capture.from_dict\<close>\<close>






section \<open>The conversion pipeline\<close>

subsection \<open>\<open>create_yolo_data_dir\<close> (\<open>data_directory.py\<close>)\<close>


lemma digit_val_digit_char: "d < 10 \<Longrightarrow> digit_val (digit_char d) = d"
proof -
  assume "d < 10"
  then have "d \<in> {0,1,2,3,4,5,6,7,8,9}" by auto
  then show ?thesis by (auto simp: digit_val_def digit_char_def)
qed

definition digits_value :: "nat \<Rightarrow> string \<Rightarrow> nat" where
  "digits_value acc s = foldl (\<lambda>a c. 10 * a + digit_val c) acc s"



lemma digits_value_str_nat: "digits_value 0 (str_nat n) = n"
proof (induction n rule: str_nat.induct)
  case (1 n)
  show ?case
  proof (cases "n < 10")
    case True
    then show ?thesis by (subst str_nat.simps) (simp add: digits_value_def digit_val_digit_char)
  next
    case False
    with 1 have "digits_value 0 (str_nat (n div 10)) = n div 10" by simp
    with False show ?thesis
      by (subst str_nat.simps) (simp add: digits_value_def digit_val_digit_char)
  qed
qed

lemma str_nat_inj: "str_nat m = str_nat n \<Longrightarrow> m = n"
  by (metis digits_value_str_nat)

function free_suffix :: "fs \<Rightarrow> string \<Rightarrow> nat \<Rightarrow> nat" where
  "free_suffix fs path i =
     (if path_exists fs (path @ ''_'' @ str_nat i) then free_suffix fs path (i + 1) else i)"
  by pat_completeness auto

lemma finite_taken_suffixes: "finite {j. path_exists fs (path @ ''_'' @ str_nat j)}"
proof -
  let ?f = "\<lambda>j. path @ ''_'' @ str_nat j"
  have "inj ?f" by (auto simp: inj_on_def dest: str_nat_inj)
  moreover have "?f ` {j. path_exists fs (?f j)} \<subseteq> fst ` set fs"
    by (auto simp: path_exists_def dest!: map_of_SomeD intro: rev_image_eqI)
  then have "finite (?f ` {j. path_exists fs (?f j)})"
    by (rule finite_subset) simp
  ultimately show ?thesis by (metis finite_imageD inj_on_subset subset_UNIV)
qed

termination free_suffix
proof (relation "measure (\<lambda>(fs, path, i). card {j. i \<le> j \<and> path_exists fs (path @ ''_'' @ str_nat j)})")
  show "wf (measure (\<lambda>(fs, path, i). card {j. i \<le> j \<and> path_exists fs (path @ ''_'' @ str_nat j)}))"
    by simp
next
  fix fs :: fs and path :: string and i :: nat
  assume ex: "path_exists fs (path @ ''_'' @ str_nat i)"
  let ?A = "{j. i \<le> j \<and> path_exists fs (path @ ''_'' @ str_nat j)}"
  let ?B = "{j. i + 1 \<le> j \<and> path_exists fs (path @ ''_'' @ str_nat j)}"
  have fin: "finite ?A" using finite_taken_suffixes[of fs path] by (rule rev_finite_subset) auto
  have "i \<in> ?A" "i \<notin> ?B" "?B \<subseteq> ?A" using ex by auto
  then have "?B \<subset> ?A" by blast
  then have "card ?B < card ?A" using fin by (rule psubset_card_mono[rotated])
  then show "((fs, path, i + 1), (fs, path, i)) \<in> measure (\<lambda>(fs, path, i). card {j. i \<le> j \<and> path_exists fs (path @ ''_'' @ str_nat j)})"
    by simp
qed

declare free_suffix.simps [simp del]


definition newline :: string where
  "newline = [CHR 0x0A]"

text \<open>The function returns the created directory and the path of the manifest. The
  name of the manifest is taken from the requested path, before a suffix is added.\<close>

definition create_yolo_data_dir :: "py_env \<Rightarrow> string \<Rightarrow> bool \<Rightarrow> (string \<times> string) io" where
  "create_yolo_data_dir env path0 include_test_arg = (\<lambda>fs.
     let path = normpath env path0;
         name = basename path
     in if path_exists fs path \<and> \<not> isdir fs path then (Inl PathIsNotADirectory, fs)
        else
          let path = (if path_exists fs path
                      then path @ ''_'' @ str_nat (free_suffix fs path 1) else path)
          in bind_io (mkdir_parents path) (\<lambda>_.
             bind_io (os_mkdir (path_join path ''train'')) (\<lambda>_.
             bind_io (os_mkdir (path_join path ''val'')) (\<lambda>_.
             bind_io (if include_test_arg then os_mkdir (path_join path ''test'')
                      else return_io ()) (\<lambda>_.
             return_io (path, path_join path name @ ''.yaml''))))) fs)"

subsection \<open>Annotation lines (\<open>convert_modular.py\<close>)\<close>

text \<open>
  Both \<open>get_bbox_annotations\<close> and \<open>get_keypoint_annotations\<close> compute the same four
  rounded numbers for a bounding box, in this order of evaluation.
\<close>

definition bbox_values ::
  "json \<Rightarrow> json \<Rightarrow> int \<Rightarrow> bounding_box_2d \<Rightarrow> error + rat \<times> rat \<times> rat \<times> rat" where
  "bbox_values img_width img_height precision_arg bounding_box =
     bind (list_index (origin_bb bounding_box) 0) (\<lambda>ox.
     bind (list_index (dimension_bb bounding_box) 0) (\<lambda>dw.
     bind (truediv (ox + dw / 2) img_width) (\<lambda>qx.
     bind (list_index (origin_bb bounding_box) 1) (\<lambda>oy.
     bind (list_index (dimension_bb bounding_box) 1) (\<lambda>dh.
     bind (truediv (oy + dh / 2) img_height) (\<lambda>qy.
     bind (list_index (dimension_bb bounding_box) 0) (\<lambda>dw2.
     bind (truediv dw2 img_width) (\<lambda>qw.
     bind (list_index (dimension_bb bounding_box) 1) (\<lambda>dh2.
     bind (truediv dh2 img_height) (\<lambda>qh.
     Inr (py_round qx precision_arg, py_round qy precision_arg,
          py_round qw precision_arg, py_round qh precision_arg)))))))))))"

text \<open>\<open>f"{bounding_box.label.id} {center_x} {center_y} {width} {height}"\<close>.\<close>

definition bbox_text :: "py_env \<Rightarrow> bounding_box_2d \<Rightarrow> rat \<times> rat \<times> rat \<times> rat \<Rightarrow> string" where
  "bbox_text env bounding_box v = (case v of (center_x, center_y, width, height) \<Rightarrow>
     str_int (id_label (label_bb bounding_box)) @ '' '' @ float_str env center_x @ '' '' @
     float_str env center_y @ '' '' @ float_str env width @ '' '' @ float_str env height)"

definition get_bbox_annotations :: "py_env \<Rightarrow> capture \<Rightarrow> int \<Rightarrow> error + string list" where
  "get_bbox_annotations env c precision_arg =
     bind (json_index (dimension_c c) 0) (\<lambda>img_width.
     bind (json_index (dimension_c c) 1) (\<lambda>img_height.
     case bounding_boxes_2d_c c of
       None \<Rightarrow> Inl AttributeError
     | Some boxes \<Rightarrow>
         map_err (\<lambda>bounding_box.
             bind (bbox_values img_width img_height precision_arg bounding_box) (\<lambda>v.
             Inr (bbox_text env bounding_box v)))
           (values_bb boxes)))"

text \<open>One keypoint: \<open>f"{keypoint_x} {keypoint_y} {keypoint_visible}"\<close>.\<close>

definition keypoint_text :: "py_env \<Rightarrow> json \<Rightarrow> json \<Rightarrow> int \<Rightarrow> keypoint \<Rightarrow> error + string" where
  "keypoint_text env img_width img_height precision_arg kp =
     bind (list_index (location_kp kp) 0) (\<lambda>lx.
     bind (truediv lx img_width) (\<lambda>qx.
     bind (list_index (location_kp kp) 1) (\<lambda>ly.
     bind (truediv ly img_height) (\<lambda>qy.
     Inr (float_str env (py_round qx precision_arg) @ '' '' @
          float_str env (py_round qy precision_arg) @ '' '' @
          str_int (if state_kp kp = 2 then 1 else 0))))))"

text \<open>The loop of \<open>get_keypoint_annotations\<close> over the bounding boxes. \<open>next(..., None)\<close>
  takes the first keypoint entry with the box's \<open>instance_id\<close>.\<close>

fun keypoint_loop ::
  "py_env \<Rightarrow> capture \<Rightarrow> json \<Rightarrow> json \<Rightarrow> int \<Rightarrow> bounding_box_2d list \<Rightarrow> error + string list" where
  "keypoint_loop env c img_width img_height precision_arg [] = Inr []"
| "keypoint_loop env c img_width img_height precision_arg (bounding_box # rest) =
     (case keypoints_c c of
        None \<Rightarrow> Inl AttributeError
      | Some ka \<Rightarrow>
          (case find (\<lambda>kp. instance_id_ke kp = instance_id_bb bounding_box) (values_ka ka) of
             None \<Rightarrow> keypoint_loop env c img_width img_height precision_arg rest
           | Some keypoint_annotation \<Rightarrow>
               bind (bbox_values img_width img_height precision_arg bounding_box) (\<lambda>v.
               bind (map_err (keypoint_text env img_width img_height precision_arg)
                       (keypoints_ke keypoint_annotation)) (\<lambda>keypoints.
               bind (keypoint_loop env c img_width img_height precision_arg rest) (\<lambda>more.
               Inr ((bbox_text env bounding_box v @ '' '' @ py_join '' '' keypoints) # more))))))"

definition get_keypoint_annotations :: "py_env \<Rightarrow> capture \<Rightarrow> int \<Rightarrow> error + string list" where
  "get_keypoint_annotations env c precision_arg =
     bind (json_index (dimension_c c) 0) (\<lambda>img_width.
     bind (json_index (dimension_c c) 1) (\<lambda>img_height.
     case bounding_boxes_2d_c c of
       None \<Rightarrow> Inl AttributeError
     | Some boxes \<Rightarrow> keypoint_loop env c img_width img_height precision_arg (values_bb boxes)))"

text \<open>One instance of \<open>get_segmentation_annotations\<close>: the label id, then for every
  polygon a blank and its boundary coordinates.\<close>

definition segmentation_text ::
  "py_env \<Rightarrow> string \<Rightarrow> int \<Rightarrow> segmentation_instance \<Rightarrow> error + string" where
  "segmentation_text env mask_path precision_arg inst =
     bind (detect_colored_polygons env mask_path (color_in inst) precision_arg) (\<lambda>norm_polygons.
     Inr (foldl (\<lambda>annotation polygon. annotation @ '' '' @
               py_join '' '' (map (\<lambda>xy. float_str env (fst xy) @ '' '' @ float_str env (snd xy)) polygon))
            (str_int (id_label (label_in inst))) norm_polygons))"

definition get_segmentation_annotations :: "py_env \<Rightarrow> capture \<Rightarrow> int \<Rightarrow> error + string list" where
  "get_segmentation_annotations env c precision_arg =
     (case instance_segmentation_c c of
        None \<Rightarrow> Inr []
      | Some seg \<Rightarrow>
          map_err (segmentation_text env (file_path_isa seg) precision_arg) (instances_isa seg))"

subsection \<open>\<open>write_yaml_header\<close>\<close>

text \<open>The keyword arguments of \<open>unity_to_yolo\<close>.\<close>

record config =
  include_bboxes :: bool
  include_keypoints :: bool
  include_segmentation :: bool
  include_semantic_mask :: bool
  include_occlusion :: bool
  n_keypoints :: "int option"
  flip_idx :: "int list option"
  include_test :: bool
  precision :: int

text \<open>\<open>str\<close> of a list of integers: \<open>[1, 2, 3]\<close>.\<close>

definition str_int_list :: "int list \<Rightarrow> string" where
  "str_int_list xs = ''['' @ py_join '', '' (map str_int xs) @ '']''"

definition yaml_header_text ::
  "py_env \<Rightarrow> string \<Rightarrow> unity_data \<Rightarrow> bool \<Rightarrow> int option \<Rightarrow> int list option \<Rightarrow> bool \<Rightarrow> string" where
  "yaml_header_text env yaml_path ud incl_keypoints n_kpts flip incl_test =
     ''path: '' @ abspath env (dirname yaml_path) @ newline @
     ''train: train'' @ newline @
     ''val: val'' @ newline @
     (if incl_test then ''test: test'' @ newline else []) @
     newline @
     (if incl_keypoints then
        (case n_kpts of
           Some n \<Rightarrow>
             ''kpt_shape: ['' @ str_int n @ '',3]'' @ newline @
             (case flip of
                Some idx \<Rightarrow> ''flip_idx: '' @ str_int_list idx @ newline
              | None \<Rightarrow> [])
         | None \<Rightarrow> [])
      else []) @
     ''names:'' @ newline @
     concat (map (\<lambda>l. ''    '' @ str_int (id_label l) @ '': '' @ name_label l @ newline)
               (labels_ud ud))"

definition write_yaml_header ::
  "py_env \<Rightarrow> string \<Rightarrow> unity_data \<Rightarrow> bool \<Rightarrow> int option \<Rightarrow> int list option \<Rightarrow> bool \<Rightarrow> unit io" where
  "write_yaml_header env yaml_path ud incl_keypoints n_kpts flip incl_test =
     write_file yaml_path (yaml_header_text env yaml_path ud incl_keypoints n_kpts flip incl_test)"

subsection \<open>\<open>unity_to_yolo\<close>\<close>

text \<open>The validity test of one capture: \<open>is_valid\<close> starts true and is narrowed by the
  four guarded assignments in turn.\<close>

definition is_valid_capture :: "config \<Rightarrow> capture \<Rightarrow> bool" where
  "is_valid_capture cfg c =
     (let is_valid = True;
          is_valid = (if include_bboxes cfg \<or> include_keypoints cfg
                      then is_valid \<and> bounding_boxes_2d_c c \<noteq> None else is_valid);
          is_valid = (if include_keypoints cfg
                      then is_valid \<and> keypoints_c c \<noteq> None else is_valid);
          is_valid = (if include_segmentation cfg
                      then is_valid \<and> instance_segmentation_c c \<noteq> None else is_valid);
          is_valid = (if include_semantic_mask cfg
                      then is_valid \<and> semantic_segmentation_c c \<noteq> None else is_valid)
      in is_valid)"

text \<open>The loop that fills \<open>valid_captures\<close>.\<close>

fun collect_valid :: "config \<Rightarrow> capture list \<Rightarrow> capture list \<Rightarrow> capture list" where
  "collect_valid cfg [] valid_captures = valid_captures"
| "collect_valid cfg (c # cs) valid_captures =
     collect_valid cfg cs (if is_valid_capture cfg c then valid_captures @ [c] else valid_captures)"

definition valid_captures_of :: "config \<Rightarrow> unity_data \<Rightarrow> capture list" where
  "valid_captures_of cfg ud = collect_valid cfg (captures ud) []"

text \<open>\<open>for annotation in annotations: f.write(f"{annotation}\n")\<close>.\<close>

definition lines_text :: "string list \<Rightarrow> string" where
  "lines_text annotations = concat (map (\<lambda>a. a @ newline) annotations)"

text \<open>
  The body of the emission loop for the capture at position \<open>i\<close> with split tag \<open>s\<close>,
  in its four consecutive parts: the image copy; the collection and writing of the
  bounding box, keypoint and segmentation lines; the occlusion metric; the semantic
  mask.
\<close>

definition copy_image :: "string \<Rightarrow> nat \<Rightarrow> string \<Rightarrow> capture \<Rightarrow> unit io" where
  "copy_image path i s c =
     (let img_ext = last (py_split CHR ''.'' (file_path_c c))
      in copyfile (file_path_c c) (path_join3 path s (str_nat i @ ''.'' @ img_ext)))"

definition write_lines :: "string \<Rightarrow> string list \<Rightarrow> unit io" where
  "write_lines p annotations =
     (if annotations \<noteq> [] then write_file p (lines_text annotations) else return_io ())"

definition write_annotations ::
  "py_env \<Rightarrow> config \<Rightarrow> string \<Rightarrow> nat \<Rightarrow> string \<Rightarrow> capture \<Rightarrow> unit io" where
  "write_annotations env cfg path i s c =
     bind_io (lift_io (if include_bboxes cfg \<and> \<not> include_keypoints cfg
                       then get_bbox_annotations env c (precision cfg) else Inr []))
       (\<lambda>annotations_bbox.
     bind_io (lift_io (if include_keypoints cfg
                       then get_keypoint_annotations env c (precision cfg) else Inr []))
       (\<lambda>annotations_keypoints.
     bind_io (lift_io (if include_segmentation cfg
                       then get_segmentation_annotations env c (precision cfg) else Inr []))
       (\<lambda>annotations_segmentation.
     bind_io (write_lines (path_join3 path s (str_nat i @ ''_bbox.txt'')) annotations_bbox)
       (\<lambda>_.
     bind_io (write_lines (path_join3 path s (str_nat i @ ''_keypoints.txt''))
                annotations_keypoints)
       (\<lambda>_.
     write_lines (path_join3 path s (str_nat i @ ''_segmentation.txt''))
       annotations_segmentation)))))"

text \<open>\<open>f"{occlusion.instance_id} {occlusion.percent_visible}"\<close>.\<close>

definition occlusion_text :: "py_env \<Rightarrow> occlusion_value \<Rightarrow> string" where
  "occlusion_text env occlusion =
     py_str env (instance_id_ov occlusion) @ '' '' @ py_str env (percent_visible_ov occlusion)"

text \<open>The look-up \<open>unity_data.metrics_by_sequence[capture.sequence]\<close>, the search
  \<open>next((metric for metric in metrics if metric.id == "Occlusion"), None)\<close> and the
  attribute access \<open>.occlusion_metric\<close> on its result.\<close>

definition find_occlusion_metric :: "unity_data \<Rightarrow> capture \<Rightarrow> error + occlusion_metric option" where
  "find_occlusion_metric ud c =
     (case map_of (metrics_by_sequence_ud ud) (sequence_c c) of
        None \<Rightarrow> Inl KeyError
      | Some metrics_of_sequence \<Rightarrow>
          (case find (\<lambda>m. id_m m = JStr ''Occlusion'') metrics_of_sequence of
             None \<Rightarrow> Inl AttributeError
           | Some m \<Rightarrow> Inr (occlusion_metric_m m)))"

definition write_occlusion ::
  "py_env \<Rightarrow> unity_data \<Rightarrow> config \<Rightarrow> string \<Rightarrow> nat \<Rightarrow> string \<Rightarrow> capture \<Rightarrow> unit io" where
  "write_occlusion env ud cfg path i s c =
     bind_io (lift_io (find_occlusion_metric ud c)) (\<lambda>occlusion_metric.
       if include_occlusion cfg then
         (case occlusion_metric of
            None \<Rightarrow> return_io ()
          | Some om \<Rightarrow>
              (case values_om om of
                 None \<Rightarrow> return_io ()
               | Some vs \<Rightarrow>
                   write_file (path_join3 path s (str_nat i @ ''_occlusion.txt''))
                     (lines_text (map (occlusion_text env) vs))))
       else return_io ())"

definition copy_mask :: "config \<Rightarrow> string \<Rightarrow> nat \<Rightarrow> string \<Rightarrow> capture \<Rightarrow> unit io" where
  "copy_mask cfg path i s c =
     (if include_semantic_mask cfg then
        (case semantic_segmentation_c c of
           None \<Rightarrow> return_io ()
         | Some sem \<Rightarrow>
             (let mask_ext = snd (splitext (file_path_ssa sem))
              in copyfile (file_path_ssa sem)
                   (path_join3 path s (str_nat i @ ''_mask.'' @ mask_ext))))
      else return_io ())"

definition emit_capture ::
  "py_env \<Rightarrow> unity_data \<Rightarrow> config \<Rightarrow> string \<Rightarrow> nat \<Rightarrow> string \<Rightarrow> capture \<Rightarrow> unit io" where
  "emit_capture env ud cfg path i s c =
     bind_io (copy_image path i s c) (\<lambda>_.
     bind_io (write_annotations env cfg path i s c) (\<lambda>_.
     bind_io (write_occlusion env ud cfg path i s c) (\<lambda>_.
     copy_mask cfg path i s c)))"

text \<open>\<open>for i, s in enumerate(split): capture = valid_captures[i]; ...\<close>. The first
  argument counts the tags already consumed.\<close>

fun emit_loop ::
  "py_env \<Rightarrow> unity_data \<Rightarrow> config \<Rightarrow> string \<Rightarrow> capture list \<Rightarrow> nat \<Rightarrow> string list \<Rightarrow> unit io" where
  "emit_loop env ud cfg path valid_captures i [] = return_io ()"
| "emit_loop env ud cfg path valid_captures i (s # split) =
     bind_io (lift_io (list_index valid_captures i)) (\<lambda>c.
     bind_io (emit_capture env ud cfg path i s c) (\<lambda>_.
     emit_loop env ud cfg path valid_captures (i + 1) split))"

definition unity_to_yolo :: "py_env \<Rightarrow> unity_data \<Rightarrow> string \<Rightarrow> config \<Rightarrow> string io" where
  "unity_to_yolo env ud output_path cfg =
     (if include_keypoints cfg \<and> n_keypoints cfg = None then raise_io ValueError
      else
        bind_io (create_yolo_data_dir env output_path (include_test cfg)) (\<lambda>created.
        bind_io (write_yaml_header env (snd created) ud (include_keypoints cfg)
                   (n_keypoints cfg) (flip_idx cfg) (include_test cfg)) (\<lambda>_.
        bind_io (emit_loop env ud cfg (fst created) (valid_captures_of cfg ud) 0
                   (generate_random_split env (length (valid_captures_of cfg ud)) (1 / 10)
                      (if include_test cfg then 1 / 10 else 0))) (\<lambda>_.
        return_io (snd created)))))"

section \<open>Properties named by the specification\<close>

text \<open>
  The notions the statements below are about, written from the words of the
  specification and of the claims, to be compared with the functions of the source.
\<close>

subsection \<open>The validity filter\<close>

text \<open>What the specification requires of an eligible capture: every requested
  annotation kind is present on it.\<close>

definition every_requested_kind_present :: "config \<Rightarrow> capture \<Rightarrow> bool" where
  "every_requested_kind_present cfg c =
     ((include_bboxes cfg \<or> include_keypoints cfg \<longrightarrow> bounding_boxes_2d_c c \<noteq> None) \<and>
      (include_keypoints cfg \<longrightarrow> keypoints_c c \<noteq> None) \<and>
      (include_segmentation cfg \<longrightarrow> instance_segmentation_c c \<noteq> None) \<and>
      (include_semantic_mask cfg \<longrightarrow> semantic_segmentation_c c \<noteq> None))"

subsection \<open>The label registry\<close>

text \<open>
  The names the definitions file declares, in the order the loops meet them: the
  \<open>label_name\<close> of every entry that carries both keys, in every block whose \<open>spec\<close> is a
  list. \<open>first_occurrences\<close> keeps each element of a list at its first position and
  drops the repeats (\<open>remdups\<close> keeps last positions, hence the two reversals).
  \<open>add_name\<close> and \<open>dense_ids\<close> describe the state of the loops in the proofs: one
  step of the registration on the list of names, and the invariant that the counter is
  the number of labels and the ids count up from zero.
\<close>

definition registered_name :: "spec_entry \<Rightarrow> string option" where
  "registered_name e = (case (label_id_se e, label_name_se e) of
       (Some lid, Some nm) \<Rightarrow> Some nm | _ \<Rightarrow> None)"

definition block_names :: "annotation_definition \<Rightarrow> string list" where
  "block_names d = (case d of Spec es \<Rightarrow> List.map_filter registered_name es | _ \<Rightarrow> [])"

definition declared_names :: "annotation_definition list \<Rightarrow> string list" where
  "declared_names defs = concat (map block_names defs)"

definition first_occurrences :: "'a list \<Rightarrow> 'a list" where
  "first_occurrences xs = rev (remdups (rev xs))"

definition add_name :: "string list \<Rightarrow> string \<Rightarrow> string list" where
  "add_name seen nm = (if nm \<in> set seen then seen else seen @ [nm])"

definition dense_ids :: "label list \<times> int \<Rightarrow> bool" where
  "dense_ids st = (snd st = int (length (fst st)) \<and>
     map id_label (fst st) = map int [0..<length (fst st)])"

subsection \<open>Bounding box lines\<close>




subsection \<open>Keypoint lines\<close>





subsection \<open>The occlusion metric\<close>




subsection \<open>Sequence numbers\<close>



section \<open>Example inputs\<close>

text \<open>A small environment and data set on which the statements below are evaluated.
  Floats are rendered as a fraction, paths are already normal, the split generator
  puts every capture into \<open>train\<close>, and the polygon detector finds nothing.\<close>

definition ex_env :: py_env where
  "ex_env = \<lparr>float_str = (\<lambda>r. str_int (fst (quotient_of r)) @ ''/'' @ str_int (snd (quotient_of r))),
             container_str = (\<lambda>v. ''[...]''),
             normpath = (\<lambda>p. p),
             abspath = (\<lambda>p. ''/work/'' @ p),
             generate_random_split = (\<lambda>n v t. replicate n ''train''),
             detect_colored_polygons = (\<lambda>p c n. Inr [])\<rparr>"

definition ex_label :: label where
  "ex_label = \<lparr>id_label = 0, label_id_label = JInt 7, name_label = ''crate''\<rparr>"

definition ex_box1 :: bounding_box_2d where
  "ex_box1 = \<lparr>instance_id_bb = 1, label_bb = ex_label, origin_bb = [1, 1],
     dimension_bb = [2, 2]\<rparr>"

definition ex_box2 :: bounding_box_2d where
  "ex_box2 = \<lparr>instance_id_bb = 2, label_bb = ex_label, origin_bb = [30, 60],
     dimension_bb = [300, 600]\<rparr>"

definition ex_keypoints :: keypoint_entry where
  "ex_keypoints = \<lparr>instance_id_ke = 2, keypoints_ke =
     [\<lparr>location_kp = [150, 300], state_kp = 2\<rparr>, \<lparr>location_kp = [0, 0], state_kp = 1\<rparr>]\<rparr>"

definition ex_capture :: capture where
  "ex_capture = \<lparr>id_c = JStr ''camera'', sequence_c = 0, description_c = JStr [],
     position_c = JArr [], rotation_c = JArr [], velocity_c = JArr [],
     acceleration_c = JArr [], file_path_c = ''solo/sequence.0/step0.camera.png'',
     image_format_c = JStr ''Png'', dimension_c = JArr [JInt 3000, JInt 3000],
     projection_c = JStr ''Perspective'', matrix_c = JArr [],
     instance_segmentation_c = None,
     semantic_segmentation_c = Some \<lparr>file_path_ssa = ''solo/sequence.0/step0.mask.png''\<rparr>,
     bounding_boxes_2d_c = Some \<lparr>values_bb = [ex_box1, ex_box2]\<rparr>,
     bounding_boxes_3d_c = None, depth_c = None,
     keypoints_c = Some \<lparr>values_ka = [ex_keypoints]\<rparr>,
     transforms_c = None\<rparr>"

definition ex_occlusion :: "occlusion_value list \<Rightarrow> metric" where
  "ex_occlusion vs = \<lparr>id_m = JStr ''Occlusion'', sequence_m = 0, sensor_id_m = JStr ''camera'',
     description_m = JStr [], generic_metrics_m = None, object_count_metric_m = None,
     occlusion_metric_m = Some \<lparr>id_om = JStr ''Occlusion'', sensor_id_om = JStr ''camera'',
       sequence_om = 0, annotation_id_om = JStr [], description_om = JStr [],
       values_om = Some vs\<rparr>\<rparr>"

definition ex_visible :: occlusion_value where
  "ex_visible = \<lparr>instance_id_ov = JInt 1, percent_visible_ov = JNum (1 / 2),
     percent_in_frame_ov = JNum 1, visibility_in_frame_ov = JNum (1 / 2)\<rparr>"

definition ex_data :: "metric list \<Rightarrow> unity_data" where
  "ex_data ms = \<lparr>labels_ud = [ex_label], captures_by_sequence_ud = [(0, [ex_capture])],
     metrics_by_sequence_ud = [(0, ms)]\<rparr>"

definition ex_config :: config where
  "ex_config = \<lparr>include_bboxes = True, include_keypoints = False, include_segmentation = False,
     include_semantic_mask = False, include_occlusion = True, n_keypoints = None,
     flip_idx = None, include_test = False, precision = 6\<rparr>"

definition ex_fs :: fs where
  "ex_fs = [(''solo/sequence.0/step0.camera.png'', File ''image''),
            (''solo/sequence.0/step0.mask.png'', File ''mask'')]"







section \<open>Configuration errors\<close>

text \<open>
  Claim C10. If keypoints are requested and \<open>n_keypoints\<close> is not supplied, the
  conversion fails at once with \<open>ValueError\<close>, whatever the data, the output path and
  the file system are, and the file system it leaves behind is the one it was given: no
  directory has been created and no file written.
\<close>

theorem keypoints_without_n_keypoints_fails_before_io:
  assumes "include_keypoints cfg" and "n_keypoints cfg = None"
  shows "unity_to_yolo env ud output_path cfg fs = (Inl ValueError, fs)"
  using assms by (simp add: unity_to_yolo_def raise_io_def)

theorem keypoints_without_n_keypoints_witness:
  "unity_to_yolo ex_env (ex_data []) ''out'' (ex_config\<lparr>include_keypoints := True\<rparr>) ex_fs
   = (Inl ValueError, ex_fs)"
  using keypoints_without_n_keypoints_fails_before_io
    [of "ex_config\<lparr>include_keypoints := True\<rparr>" ex_env "ex_data []" "''out''" ex_fs]
  by (simp add: ex_config_def)

section \<open>The validity filter\<close>

lemma is_valid_capture_iff:
  "is_valid_capture cfg c = every_requested_kind_present cfg c"
  by (auto simp: is_valid_capture_def every_requested_kind_present_def Let_def)

lemma collect_valid_filter:
  "collect_valid cfg cs acc = acc @ filter (is_valid_capture cfg) cs"
  by (induction cs arbitrary: acc) auto

text \<open>
  Claim C6. The captures the conversion keeps are exactly the captures of the data set
  on which every requested annotation kind is present, in their original order:
  requesting bounding boxes or keypoints requires the 2D bounding box record, requesting
  keypoints also the keypoint record, requesting segmentation the instance segmentation
  record, and requesting the semantic mask the semantic segmentation record. A capture
  that lacks only kinds that were not requested is kept. Only the captures kept are
  handed to the emission loop of \<open>unity_to_yolo\<close>.
\<close>

theorem eligible_iff_requested_kinds_present:
  "valid_captures_of cfg ud = filter (every_requested_kind_present cfg) (captures ud)"
  by (simp add: valid_captures_of_def collect_valid_filter is_valid_capture_iff[abs_def])

theorem eligible_witness:
  "valid_captures_of (ex_config\<lparr>include_semantic_mask := True\<rparr>)
     \<lparr>labels_ud = [ex_label],
      captures_by_sequence_ud = [(0, [ex_capture\<lparr>semantic_segmentation_c := None\<rparr>, ex_capture])],
      metrics_by_sequence_ud = []\<rparr>
   = [ex_capture]
   \<and> valid_captures_of ex_config
     \<lparr>labels_ud = [ex_label],
      captures_by_sequence_ud = [(0, [ex_capture\<lparr>semantic_segmentation_c := None\<rparr>, ex_capture])],
      metrics_by_sequence_ud = []\<rparr>
   = [ex_capture\<lparr>semantic_segmentation_c := None\<rparr>, ex_capture]"
  using eligible_iff_requested_kinds_present[of "ex_config\<lparr>include_semantic_mask := True\<rparr>"
     "\<lparr>labels_ud = [ex_label],
      captures_by_sequence_ud = [(0, [ex_capture\<lparr>semantic_segmentation_c := None\<rparr>, ex_capture])],
      metrics_by_sequence_ud = []\<rparr>"]
    eligible_iff_requested_kinds_present[of ex_config
     "\<lparr>labels_ud = [ex_label],
      captures_by_sequence_ud = [(0, [ex_capture\<lparr>semantic_segmentation_c := None\<rparr>, ex_capture])],
      metrics_by_sequence_ud = []\<rparr>"]
  by (simp add: every_requested_kind_present_def captures_def ex_config_def ex_capture_def)

section \<open>The label registry\<close>

lemma remdups_snoc: "remdups (zs @ [x]) = filter (\<lambda>y. y \<noteq> x) (remdups zs) @ [x]"
  by (induction zs) auto

lemma first_occurrences_Cons:
  "first_occurrences (x # ys) = x # first_occurrences (filter (\<lambda>y. y \<noteq> x) ys)"
  by (simp add: first_occurrences_def remdups_snoc remdups_filter rev_filter)

lemma foldl_add_name:
  "foldl add_name seen xs = seen @ first_occurrences (filter (\<lambda>x. x \<notin> set seen) xs)"
proof (induction xs arbitrary: seen)
  case Nil
  show ?case by (simp add: first_occurrences_def)
next
  case (Cons x xs)
  show ?case
  proof (cases "x \<in> set seen")
    case True
    then show ?thesis using Cons[of seen] by (simp add: add_name_def)
  next
    case False
    have "filter (\<lambda>y. y \<notin> set (seen @ [x])) xs = filter (\<lambda>y. y \<noteq> x) (filter (\<lambda>y. y \<notin> set seen) xs)"
      by (auto intro: filter_cong)
    then show ?thesis using False Cons[of "seen @ [x]"]
      by (simp add: add_name_def first_occurrences_Cons)
  qed
qed

lemma read_spec_entries_names:
  "map name_label (fst (read_spec_entries es (ls, k)))
   = foldl add_name (map name_label ls) (List.map_filter registered_name es)"
proof (induction es arbitrary: ls k)
  case Nil
  show ?case by (simp add: List.map_filter_simps)
next
  case (Cons e es)
  show ?case
    by (cases "label_id_se e"; cases "label_name_se e")
       (auto simp: Cons List.map_filter_simps registered_name_def add_name_def list_ex_iff)
qed

lemma read_definitions_names:
  "map name_label (fst (read_definitions ds st))
   = foldl add_name (map name_label (fst st)) (declared_names ds)"
proof (induction ds arbitrary: st)
  case Nil
  show ?case by (simp add: declared_names_def)
next
  case (Cons d ds)
  obtain ls k where st: "st = (ls, k)" by (cases st)
  show ?case
    using Cons[of st] Cons[of "read_spec_entries (case d of Spec es \<Rightarrow> es | _ \<Rightarrow> []) st"]
    by (cases d) (auto simp: st declared_names_def block_names_def read_spec_entries_names
          List.map_filter_simps)
qed

lemma read_spec_entries_ids: "dense_ids st \<Longrightarrow> dense_ids (read_spec_entries es st)"
proof (induction es arbitrary: st)
  case Nil
  then show ?case by simp
next
  case (Cons e es)
  obtain ls k where st: "st = (ls, k)" by (cases st)
  have "dense_ids (ls @ [\<lparr>id_label = k, label_id_label = lid, name_label = nm\<rparr>], k + 1)" for lid nm
    using Cons.prems by (simp add: dense_ids_def st)
  then show ?case
    using Cons by (cases "label_id_se e"; cases "label_name_se e") (auto simp: st)
qed

lemma read_definitions_ids: "dense_ids st \<Longrightarrow> dense_ids (read_definitions ds st)"
proof (induction ds arbitrary: st)
  case Nil
  then show ?case by simp
next
  case (Cons d ds)
  then show ?case by (cases d) (auto simp: read_spec_entries_ids)
qed

text \<open>
  Claim C8. For every definitions input, the names of the labels \<open>read_labels\<close> builds
  are the declared names, each once, in the order of their first occurrence; so there is
  exactly one label per distinct name. The ids are \<open>0, 1, 2, ...\<close> in that order. Blocks
  without a \<open>spec\<close>, with a \<open>spec\<close> that is not a list or with an empty list contribute
  nothing, and a repeated name is dropped; \<open>read_labels\<close> is a total function, so none of
  this raises.
\<close>

theorem label_registry_first_seen:
  "map name_label (read_labels defs) = first_occurrences (declared_names defs)
   \<and> distinct (map name_label (read_labels defs))
   \<and> map id_label (read_labels defs) = map int [0..<length (read_labels defs)]"
proof -
  have names: "map name_label (read_labels defs) = first_occurrences (declared_names defs)"
    by (simp add: read_labels_def read_definitions_names foldl_add_name)
  have "dense_ids (read_definitions defs ([], 0))"
    by (rule read_definitions_ids) (simp add: dense_ids_def)
  then have ids: "map id_label (read_labels defs) = map int [0..<length (read_labels defs)]"
    by (simp add: dense_ids_def read_labels_def)
  from names have "distinct (map name_label (read_labels defs))"
    by (simp add: first_occurrences_def)
  with names ids show ?thesis by simp
qed

lemma label_registry_example:
  "read_labels
     [NoSpec,
      Spec [\<lparr>label_id_se = Some (JInt 5), label_name_se = Some ''crate''\<rparr>,
            \<lparr>label_id_se = Some (JInt 6), label_name_se = Some ''box''\<rparr>],
      Spec [],
      SpecNotAList,
      Spec [\<lparr>label_id_se = Some (JInt 9), label_name_se = Some ''crate''\<rparr>,
            \<lparr>label_id_se = None, label_name_se = Some ''lamp''\<rparr>,
            \<lparr>label_id_se = Some (JInt 1), label_name_se = Some ''drum''\<rparr>]]
   = [\<lparr>id_label = 0, label_id_label = JInt 5, name_label = ''crate''\<rparr>,
      \<lparr>id_label = 1, label_id_label = JInt 6, name_label = ''box''\<rparr>,
      \<lparr>id_label = 2, label_id_label = JInt 1, name_label = ''drum''\<rparr>]"
  by (simp add: read_labels_def)

section \<open>Bounding box lines\<close>

subsection \<open>The error of rounding\<close>
















section \<open>Keypoint lines\<close>






section \<open>The occlusion metric\<close>









lemma write_file_result:
  "write_file p content fs = (r, fs') \<Longrightarrow>
     fs' = fs \<or> (r = Inr () \<and> fs' = (p, File content) # fs)"
  by (auto simp: write_file_def split: if_splits)









section \<open>Files written for a capture\<close>

lemma lines_text_empty: "lines_text ls = [] \<longleftrightarrow> ls = []"
  by (cases ls) (simp_all add: lines_text_def newline_def)

lemma write_lines_never_empty:
  assumes "write_lines p ls fs = (r, fs')"
  shows "fs' = fs \<or> (\<exists>content. content \<noteq> [] \<and> fs' = (p, File content) # fs)"
proof (cases "ls = []")
  case True
  with assms show ?thesis by (simp add: write_lines_def return_io_def)
next
  case False
  then have "lines_text ls \<noteq> []" by (simp add: lines_text_empty)
  with False assms show ?thesis
    by (auto simp: write_lines_def dest: write_file_result)
qed

text \<open>
  Claim C4 says that no annotation file is written empty. The bounding box, keypoint
  and segmentation files are written through \<open>write_lines\<close>, which writes nothing for
  an empty list (\<open>write_lines_never_empty\<close>). The occlusion branch only tests that the
  list of values is not \<open>None\<close>: for the example capture and an \<open>Occlusion\<close> metric whose
  list of values is empty, the conversion succeeds and leaves an empty file
  \<open>out/train/0_occlusion.txt\<close>.
\<close>

theorem empty_occlusion_file_is_written:
  "fst (unity_to_yolo ex_env (ex_data [ex_occlusion []]) ''out'' ex_config ex_fs)
     = Inr ''out/out.yaml''
   \<and> map_of (snd (unity_to_yolo ex_env (ex_data [ex_occlusion []]) ''out'' ex_config ex_fs))
        ''out/train/0_occlusion.txt'' = Some (File [])"
  by code_simp

lemma splitext_keeps_dot: "snd (splitext p) = [] \<or> hd (snd (splitext p)) = CHR ''.''"
  by (simp add: splitext_def Let_def)

lemma image_extension_without_dot: "CHR ''.'' \<notin> set (last (py_split CHR ''.'' p))"
proof (induction p)
  case Nil
  show ?case by simp
next
  case (Cons x p)
  then show ?case
    by (cases "py_split CHR ''.'' p") (auto split: if_splits)
qed

text \<open>
  Claim C5 gives the mask copy the name \<open>{i}_mask.{ext}\<close>. The source takes \<open>ext\<close> from
  \<open>os.path.splitext\<close>, whose extension keeps its leading dot
  (\<open>splitext_keeps_dot\<close>), whereas the image copy takes the text after the last dot
  (\<open>image_extension_without_dot\<close>). For the example capture, whose mask is
  \<open>step0.mask.png\<close>, the copy is therefore written to \<open>out/train/0_mask..png\<close>, and
  \<open>out/train/0_mask.png\<close> does not exist.
\<close>

theorem mask_copied_with_doubled_dot:
  "fst (unity_to_yolo ex_env (ex_data [ex_occlusion [ex_visible]]) ''out''
          (ex_config\<lparr>include_semantic_mask := True\<rparr>) ex_fs) = Inr ''out/out.yaml''
   \<and> map_of (snd (unity_to_yolo ex_env (ex_data [ex_occlusion [ex_visible]]) ''out''
          (ex_config\<lparr>include_semantic_mask := True\<rparr>) ex_fs)) ''out/train/0_mask..png''
       = Some (File ''mask'')
   \<and> map_of (snd (unity_to_yolo ex_env (ex_data [ex_occlusion [ex_visible]]) ''out''
          (ex_config\<lparr>include_semantic_mask := True\<rparr>) ex_fs)) ''out/train/0_mask.png''
       = None"
  by code_simp

section \<open>Sequence numbers\<close>


lemma underscore_not_digit: "\<not> is_digit CHR ''_''"
  by (simp add: is_digit_def)


lemma parse_digits_underscore:
  "is_digit d \<Longrightarrow> parse_digits acc (CHR ''_'' # d # cs) = parse_digits (10 * acc + digit_val d) cs"
  by (simp add: underscore_not_digit)





































end
